theory Spec2Isabelle
  imports Main "HOL-Library.Word" "HOL-Library.Multiset"
begin

section \<open>Data model (api/pkg/types/types.go)\<close>

text \<open>
  Go's \<open>type ModelName string\<close> comes with four named constants whose literal values
  live in a file that is not part of the sources at hand. \<open>GetModel\<close> switches on
  them, and a Go \<open>switch\<close> with two equal constant cases does not compile, so the four are
  pairwise distinct. A model name is therefore one of the four constants or any other string.
\<close>

datatype ModelName =
    Model_Axolotl_Mistral7b
  | Model_Axolotl_SDXL
  | Model_Ollama_Mistral7b
  | Model_Ollama_Gemma7b
  | Model_Other string

text \<open>
  \<open>SessionMode\<close>, \<open>SessionType\<close> and \<open>WorkerTaskResponseType\<close> are string types
  in Go. The values of their constants are the ones the frontend mirrors in
  \<open>frontend/src/types.ts\<close>.
\<close>

type_synonym SessionMode = string
type_synonym SessionType = string
type_synonym WorkerTaskResponseType = string

definition SessionModeInference :: SessionMode where
  "SessionModeInference = ''inference''"

definition SessionModeFinetune :: SessionMode where
  "SessionModeFinetune = ''finetune''"

definition WorkerTaskResponseTypeStream :: WorkerTaskResponseType where
  "WorkerTaskResponseTypeStream = ''stream''"

definition WorkerTaskResponseTypeProgress :: WorkerTaskResponseType where
  "WorkerTaskResponseTypeProgress = ''progress''"

definition WorkerTaskResponseTypeResult :: WorkerTaskResponseType where
  "WorkerTaskResponseTypeResult = ''result''"

text \<open>
  A session. The timestamps, the metadata and the interaction list of the Go struct are read
  by none of the functions below (sessions are handed around by pointer) and are left out.
\<close>

record Session =
  Session_ID :: string
  Session_Name :: string
  Session_ParentSession :: string
  Session_ParentBot :: string
  Session_ChildBot :: string
  Session_Mode :: SessionMode
  Session_Type :: SessionType
  Session_ModelName :: ModelName
  Session_LoraDir :: string
  Session_Owner :: string
  Session_OwnerType :: string

record SessionFilterModel =
  Reject_Mode :: SessionMode
  Reject_ModelName :: ModelName
  Reject_LoraDir :: string

record SessionFilter =
  Filter_Mode :: SessionMode
  Filter_Type :: SessionType
  Filter_ModelName :: ModelName
  Filter_LoraDir :: string
  Filter_Memory :: "64 word"
  Filter_Reject :: "SessionFilterModel list"
  Filter_Older :: int

record RunnerTask =
  Task_SessionID :: string
  Task_Prompt :: string
  Task_LoraDir :: string
  Task_DatasetDir :: string

record RunnerTaskResponse =
  Response_Type :: WorkerTaskResponseType
  Response_SessionID :: string
  Response_InteractionID :: string
  Response_Owner :: string
  Response_Message :: string
  Response_Progress :: int
  Response_Status :: string
  Response_Files :: "string list"
  Response_LoraDir :: string
  Response_Error :: string
  Response_Done :: bool

text \<open>A Go \<open>error\<close> is represented by the text its \<open>Error()\<close> method returns.\<close>

type_synonym error = string

section \<open>The model registry (package model)\<close>

text \<open>
  The four implementations of the \<open>Model\<close> interface are empty structs. Their methods are
  not among the sources; \<open>GetMemoryRequirements\<close> is a parameter \<open>mem\<close> of the
  functions that call it.
\<close>

datatype Model =
    Mistral7bInstruct01
  | CogSDXL
  | OllamaMistral7bInstruct01
  | OllamaGemma7bInstruct01

fun GetModel :: "ModelName \<Rightarrow> error + Model" where
  "GetModel Model_Axolotl_Mistral7b = Inr Mistral7bInstruct01"
| "GetModel Model_Axolotl_SDXL = Inr CogSDXL"
| "GetModel Model_Ollama_Mistral7b = Inr OllamaMistral7bInstruct01"
| "GetModel Model_Ollama_Gemma7b = Inr OllamaGemma7bInstruct01"
| "GetModel (Model_Other n) = Inl (''no model for model name '' @ n)"

text \<open>The map built by \<open>GetModels\<close>, as the list of its entries; the error is always nil.\<close>

definition GetModels :: "error + (ModelName \<times> Model) list" where
  "GetModels = Inr
     [(Model_Axolotl_Mistral7b, Mistral7bInstruct01),
      (Model_Axolotl_SDXL, CogSDXL),
      (Model_Ollama_Mistral7b, OllamaMistral7bInstruct01),
      (Model_Ollama_Gemma7b, OllamaGemma7bInstruct01)]"

text \<open>One comparison of the loop body: keep the smaller of the running minimum and a
  non-zero candidate.\<close>

definition lower :: "64 word \<Rightarrow> 64 word \<Rightarrow> 64 word" where
  "lower lowestMemoryRequirement v =
     (if 0 < v \<and> (lowestMemoryRequirement = 0 \<or> v < lowestMemoryRequirement)
      then v else lowestMemoryRequirement)"

text \<open>The loop body: first the finetune requirement of the model, then the inference one.\<close>

definition lowest_body ::
  "(Model \<Rightarrow> SessionMode \<Rightarrow> 64 word) \<Rightarrow> 64 word \<Rightarrow> ModelName \<times> Model \<Rightarrow> 64 word" where
  "lowest_body mem lowestMemoryRequirement entry =
     (let finetune = mem (snd entry) SessionModeFinetune;
          l1 = lower lowestMemoryRequirement finetune;
          inference = mem (snd entry) SessionModeInference
      in lower l1 inference)"

text \<open>
  Go visits the entries of a map in an order of its own choosing, each entry once. The
  order is the parameter \<open>order\<close>, which rearranges the entry list.
\<close>

definition GetLowestMemoryRequirement ::
  "(Model \<Rightarrow> SessionMode \<Rightarrow> 64 word) \<Rightarrow>
   ((ModelName \<times> Model) list \<Rightarrow> (ModelName \<times> Model) list) \<Rightarrow> error + 64 word" where
  "GetLowestMemoryRequirement mem order =
     (case GetModels of
        Inl err \<Rightarrow> Inl err
      | Inr models \<Rightarrow> Inr (foldl (lowest_body mem) 0 (order models)))"

definition known_models :: "Model set" where
  "known_models = {Mistral7bInstruct01, CogSDXL, OllamaMistral7bInstruct01, OllamaGemma7bInstruct01}"

definition session_modes :: "SessionMode set" where
  "session_modes = {SessionModeFinetune, SessionModeInference}"

section \<open>The model instance (api/pkg/runner/model_instance.go)\<close>

text \<open>
  Of \<open>RunnerOptions\<close> and \<open>server.ClientOptions\<close> only the fields that
  \<open>NewModelInstance\<close> reads are known.
\<close>

record RunnerOptions =
  Runner_ID :: string
  ApiHost :: string
  ApiToken :: string

record ClientOptions =
  Host :: string
  Token :: string

text \<open>
  The file handler is not among the sources. Its two methods called by the instance are
  fields here: each returns an error (\<open>Inl\<close>) or its result (\<open>Inr\<close>).
\<close>

record FileHandler =
  downloadSession :: "Session \<Rightarrow> bool \<Rightarrow> error + Session"
  uploadWorkerResponse :: "RunnerTaskResponse \<Rightarrow> error + RunnerTaskResponse"

text \<open>
  The struct \<open>ModelInstance\<close>, field by field. The fields \<open>id\<close> and \<open>filter\<close> are
  named \<open>instance_id\<close> and \<open>instance_filter\<close>. A nil session pointer is \<open>None\<close>.
  The channel \<open>finishChan\<close>, buffered with capacity 1, is the list of the values it holds.
  The context and the command are opaque (type parameters).
\<close>

record ('ctx, 'cmd) ModelInstance =
  instance_id :: string
  model :: Model
  instance_filter :: SessionFilter
  finishChan :: "bool list"
  runnerOptions :: RunnerOptions
  httpClientOptions :: ClientOptions
  nextTaskURL :: string
  initialSessionURL :: string
  responseHandler :: "RunnerTaskResponse \<Rightarrow> error option"
  ctx :: 'ctx
  currentCommand :: "'cmd option"
  initialSession :: "Session option"
  currentSession :: "Session option"
  nextSession :: "Session option"
  queuedSession :: "Session option"
  lastActivityTimestamp :: int
  fileHandler :: FileHandler

text \<open>
  What a function does to the outside is the list of its events, in the order in which they
  happen: a log line (level, format string, arguments; the emoji that start some format
  strings and trailing newlines are left out), a call of the file handler, a call of the
  response handler.
\<close>

datatype level = DebugLevel | InfoLevel | ErrorLevel

datatype log_arg = Str string | Num int

datatype event =
    Log level string "log_arg list"
  | Downloaded Session bool
  | Uploaded RunnerTaskResponse
  | Responded RunnerTaskResponse

text \<open>The responses handed to the response handler, in order.\<close>

fun responses :: "event list \<Rightarrow> RunnerTaskResponse list" where
  "responses [] = []"
| "responses (Responded r # es) = r # responses es"
| "responses (_ # es) = responses es"

text \<open>
  \<open>NewModelInstance\<close>. The constant \<open>types.LORA_DIR_NONE\<close>, the constructor
  \<open>NewFileHandler\<close> and the identifier that \<open>system.GenerateUUID\<close> returns are not in
  the sources and are parameters. Fields that the struct literal does not mention hold
  Go's zero values.
\<close>

definition NewModelInstance ::
  "string \<Rightarrow> (string \<Rightarrow> ClientOptions \<Rightarrow> FileHandler) \<Rightarrow> string \<Rightarrow>
   'ctx \<Rightarrow> Session \<Rightarrow> string \<Rightarrow> string \<Rightarrow> (RunnerTaskResponse \<Rightarrow> error option) \<Rightarrow>
   RunnerOptions \<Rightarrow> error + ('ctx, 'cmd) ModelInstance" where
  "NewModelInstance LORA_DIR_NONE NewFileHandler uuid
     ctx' initialSession' nextTaskURL' initialSessionURL' responseHandler' runnerOptions' =
     (case GetModel (Session_ModelName initialSession') of
        Inl err \<Rightarrow> Inl err
      | Inr modelInstance \<Rightarrow>
          (let id' = uuid;
               useLoraDir = (if Session_LoraDir initialSession' = []
                             then LORA_DIR_NONE else Session_LoraDir initialSession');
               httpClientOptions' =
                 \<lparr>Host = ApiHost runnerOptions', Token = ApiToken runnerOptions'\<rparr>
           in Inr
             \<lparr>instance_id = id',
              model = modelInstance,
              instance_filter =
                \<lparr>Filter_Mode = Session_Mode initialSession',
                 Filter_Type = Session_Type initialSession',
                 Filter_ModelName = Session_ModelName initialSession',
                 Filter_LoraDir = useLoraDir,
                 Filter_Memory = 0,
                 Filter_Reject = [],
                 Filter_Older = 0\<rparr>,
              finishChan = [],
              runnerOptions = runnerOptions',
              httpClientOptions = httpClientOptions',
              nextTaskURL = nextTaskURL' @ ''/'' @ id',
              initialSessionURL = initialSessionURL' @ ''/'' @ id',
              responseHandler = responseHandler',
              ctx = ctx',
              currentCommand = None,
              initialSession = Some initialSession',
              currentSession = None,
              nextSession = None,
              queuedSession = None,
              lastActivityTimestamp = 0,
              fileHandler = NewFileHandler (Runner_ID runnerOptions') httpClientOptions'\<rparr>))"

text \<open>
  \<open>assignSessionTask\<close>. The clock reading \<open>time.Now().Unix()\<close> is the parameter
  \<open>now\<close>; the method \<open>GetTask\<close> of the model is a parameter as well. The two
  assignments to the instance happen before \<open>GetTask\<close> is called, so they stay when it
  fails.
\<close>

definition assignSessionTask ::
  "(Model \<Rightarrow> Session \<Rightarrow> error + RunnerTask) \<Rightarrow> int \<Rightarrow>
   ('ctx, 'cmd) ModelInstance \<Rightarrow> Session \<Rightarrow> ('ctx, 'cmd) ModelInstance \<times> (error + RunnerTask)" where
  "assignSessionTask GetTask now inst session =
     (let inst1 = inst\<lparr>lastActivityTimestamp := now, currentSession := Some session\<rparr>
      in case GetTask (model inst1) session of
           Inl err \<Rightarrow> (inst1, Inl err)
         | Inr task \<Rightarrow> (inst1, Inr (task\<lparr>Task_SessionID := Session_ID session\<rparr>)))"

text \<open>\<open>errorSession\<close> changes nothing in the instance; it returns its events.\<close>

definition errorSession ::
  "('ctx, 'cmd) ModelInstance \<Rightarrow> Session \<Rightarrow> error \<Rightarrow> event list" where
  "errorSession inst session err =
     (let res = \<lparr>Response_Type = WorkerTaskResponseTypeResult,
                 Response_SessionID = Session_ID session,
                 Response_InteractionID = [],
                 Response_Owner = [],
                 Response_Message = [],
                 Response_Progress = 0,
                 Response_Status = [],
                 Response_Files = [],
                 Response_LoraDir = [],
                 Response_Error = err,
                 Response_Done = False\<rparr>
      in Responded res #
         (case responseHandler inst res of
            None \<Rightarrow> []
          | Some apiUpdateErr \<Rightarrow>
              [Log ErrorLevel ''Error reporting error to api: %v'' [Str apiUpdateErr]]))"

text \<open>
  \<open>queueSession\<close>, in two parts: the assignments and the log line before the download
  (\<open>queueSession_store\<close>), and the download with what follows it
  (\<open>queueSession_download\<close>). The state between the two is the one other goroutines see
  while the files are fetched.
\<close>

definition queueSession_store ::
  "('ctx, 'cmd) ModelInstance \<Rightarrow> Session \<Rightarrow> event list \<times> ('ctx, 'cmd) ModelInstance" where
  "queueSession_store inst session =
     ([Log DebugLevel ''runner prepare session: %s'' [Str (Session_ID session)]],
      inst\<lparr>queuedSession := Some session, nextSession := None\<rparr>)"

definition queueSession_download ::
  "('ctx, 'cmd) ModelInstance \<Rightarrow> Session \<Rightarrow> bool \<Rightarrow>
   event list \<times> ('ctx, 'cmd) ModelInstance" where
  "queueSession_download inst session isInitialSession =
     (case downloadSession (fileHandler inst) session isInitialSession of
        Inl err \<Rightarrow>
          (let inst' = inst\<lparr>queuedSession := None, nextSession := None\<rparr>
           in (Downloaded session isInitialSession #
               Log ErrorLevel ''error preparing session: %s'' [Str err] #
               errorSession inst' session err,
               inst'))
      | Inr preparedSession \<Rightarrow>
          ([Downloaded session isInitialSession,
            Log DebugLevel ''runner assign next session: %s'' [Str (Session_ID preparedSession)]],
           inst\<lparr>queuedSession := None, nextSession := Some preparedSession\<rparr>))"

definition queueSession ::
  "('ctx, 'cmd) ModelInstance \<Rightarrow> Session \<Rightarrow> bool \<Rightarrow>
   event list \<times> ('ctx, 'cmd) ModelInstance" where
  "queueSession inst session isInitialSession =
     (let (evs1, inst1) = queueSession_store inst session;
          (evs2, inst2) = queueSession_download inst1 session isInitialSession
      in (evs1 @ evs2, inst2))"

text \<open>The last lines of \<open>taskResponseHandler\<close>: hand the response to the response handler
  and log the error it returns, if any.\<close>

definition taskResponseHandler_emit ::
  "('ctx, 'cmd) ModelInstance \<Rightarrow> RunnerTaskResponse \<Rightarrow> event list" where
  "taskResponseHandler_emit inst taskResponse =
     Responded taskResponse #
     (case responseHandler inst taskResponse of
        None \<Rightarrow> []
      | Some err \<Rightarrow> [Log ErrorLevel ''error writing event: %s'' [Str err]])"

definition taskResponseHandler ::
  "int \<Rightarrow> ('ctx, 'cmd) ModelInstance \<Rightarrow> RunnerTaskResponse \<Rightarrow>
   event list \<times> ('ctx, 'cmd) ModelInstance" where
  "taskResponseHandler now inst taskResponse =
     (case currentSession inst of
        None \<Rightarrow> ([Log ErrorLevel ''no current session'' []], inst)
      | Some cur \<Rightarrow>
          if Session_ID cur \<noteq> Response_SessionID taskResponse then
            ([Log ErrorLevel ''current session ID mis-match: current=%s vs event=%s''
                [Str (Session_ID cur), Str (Response_SessionID taskResponse)]], inst)
          else
            (let taskResponse1 = taskResponse\<lparr>Response_Owner := Session_Owner cur\<rparr>;
                 inst1 = inst\<lparr>lastActivityTimestamp := now\<rparr>
             in if Response_Type taskResponse1 = WorkerTaskResponseTypeResult then
                  (case uploadWorkerResponse (fileHandler inst1) taskResponse1 of
                     Inl err \<Rightarrow>
                       ([Uploaded taskResponse1,
                         Log ErrorLevel ''error uploading task result files: %s'' [Str err]],
                        inst1\<lparr>currentSession := None\<rparr>)
                   | Inr taskResponse2 \<Rightarrow>
                       (let inst2 = inst1\<lparr>currentSession := None\<rparr>
                        in (Uploaded taskResponse1 # taskResponseHandler_emit inst2 taskResponse2,
                            inst2)))
                else (taskResponseHandler_emit inst1 taskResponse1, inst1)))"

text \<open>
  Sending on a buffered channel of capacity \<open>cap\<close>: the value is appended when there is
  room; otherwise the sender blocks (\<open>None\<close>).
\<close>

definition chan_send :: "nat \<Rightarrow> 'a list \<Rightarrow> 'a \<Rightarrow> 'a list option" where
  "chan_send cap ch v = (if length ch < cap then Some (ch @ [v]) else None)"

text \<open>
  The goroutine that \<open>startProcess\<close> starts after the command: it waits for the child and
  reports. \<open>waitErr\<close> is what \<open>cmd.Wait()\<close> returns (\<open>None\<close> for nil; an exit status
  other than zero or a signal gives an error), \<open>exitCode\<close> is the exit code of the process
  state. The second component of the result is \<open>None\<close> when the final send on
  \<open>finishChan\<close> blocks.
\<close>

definition startProcess_wait ::
  "error option \<Rightarrow> int \<Rightarrow> ('ctx, 'cmd) ModelInstance \<Rightarrow>
   event list \<times> ('ctx, 'cmd) ModelInstance option" where
  "startProcess_wait waitErr exitCode inst =
     (let evs1 = (case waitErr of
                    None \<Rightarrow> []
                  | Some err \<Rightarrow>
                      Log ErrorLevel ''Command ended with an error: %v'' [Str err] #
                      (case currentSession inst of
                         None \<Rightarrow> []
                       | Some cur \<Rightarrow> errorSession inst cur err));
          evs2 = [Log InfoLevel ''stop model instance, exit code=%d'' [Num exitCode]]
      in (evs1 @ evs2,
          map_option (\<lambda>ch. inst\<lparr>finishChan := ch\<rparr>) (chan_send 1 (finishChan inst) True)))"

text \<open>
  Modelled from the spec: the limited buffer of package \<open>system\<close> (\<open>NewLimitedBuffer\<close>
  and its \<open>Write\<close> are not in the sources). "The last ~10 KiB of stderr is retained in a
  bounded buffer": a write appends the bytes and keeps the last \<open>cap\<close> of them.
\<close>

definition LimitedBuffer_Write :: "nat \<Rightarrow> string \<Rightarrow> string \<Rightarrow> string" where
  "LimitedBuffer_Write cap buf p = (let all = buf @ p in drop (length all - cap) all)"

text \<open>
  The end of a child process as \<open>startProcess\<close> sets it up: \<open>stderrBuf\<close> is created with a
  limit of \<open>1024 * 10\<close> bytes and is one of the writers that the stderr of the child is copied
  to (\<open>stderrData\<close> is what the child wrote); then the goroutine above runs. The result is
  the final contents of \<open>stderrBuf\<close>, the events and the instance. The buffer is written
  to and read by nothing.
\<close>

definition startProcess_child ::
  "string \<Rightarrow> error option \<Rightarrow> int \<Rightarrow> ('ctx, 'cmd) ModelInstance \<Rightarrow>
   string \<times> event list \<times> ('ctx, 'cmd) ModelInstance option" where
  "startProcess_child stderrData waitErr exitCode inst =
     (let stderrBuf = LimitedBuffer_Write (1024 * 10) [] stderrData;
          (evs, fin) = startProcess_wait waitErr exitCode inst
      in (stderrBuf, evs, fin))"

text \<open>
  Two slots hold distinct sessions when they are not both occupied by sessions with the same
  ID. The slot invariant: \<open>current\<close> and \<open>next\<close> are distinct, and so are \<open>queued\<close> and
  \<open>next\<close>.
\<close>

fun distinct_slots :: "Session option \<Rightarrow> Session option \<Rightarrow> bool" where
  "distinct_slots (Some a) (Some b) = (Session_ID a \<noteq> Session_ID b)"
| "distinct_slots _ _ = True"


section \<open>Example values\<close>

definition mem_example :: "Model \<Rightarrow> SessionMode \<Rightarrow> 64 word" where
  "mem_example m mode =
     (if m = CogSDXL then 5
      else if m = OllamaGemma7bInstruct01 \<and> mode = SessionModeInference then 7
      else 0)"

definition session_A :: Session where
  "session_A =
     \<lparr>Session_ID = ''s1'', Session_Name = ''first'', Session_ParentSession = [],
      Session_ParentBot = [], Session_ChildBot = [], Session_Mode = SessionModeInference,
      Session_Type = ''text'', Session_ModelName = Model_Axolotl_Mistral7b,
      Session_LoraDir = [], Session_Owner = ''alice'', Session_OwnerType = ''user''\<rparr>"

definition session_B :: Session where
  "session_B =
     \<lparr>Session_ID = ''s2'', Session_Name = ''second'', Session_ParentSession = [],
      Session_ParentBot = [], Session_ChildBot = [], Session_Mode = SessionModeInference,
      Session_Type = ''text'', Session_ModelName = Model_Axolotl_Mistral7b,
      Session_LoraDir = ''loras/s2'', Session_Owner = ''bob'', Session_OwnerType = ''user''\<rparr>"

definition response_A :: "WorkerTaskResponseType \<Rightarrow> RunnerTaskResponse" where
  "response_A ty =
     \<lparr>Response_Type = ty, Response_SessionID = ''s1'', Response_InteractionID = ''i1'',
      Response_Owner = [], Response_Message = ''hello'', Response_Progress = 0,
      Response_Status = [], Response_Files = [''out.png''], Response_LoraDir = [],
      Response_Error = [], Response_Done = False\<rparr>"

definition handler_ok :: "RunnerTaskResponse \<Rightarrow> error option" where
  "handler_ok res = None"

definition download_ok :: "Session \<Rightarrow> bool \<Rightarrow> error + Session" where
  "download_ok session isInitialSession = Inr session"

definition download_failing :: "Session \<Rightarrow> bool \<Rightarrow> error + Session" where
  "download_failing session isInitialSession = Inl ''download failed''"

definition upload_ok :: "RunnerTaskResponse \<Rightarrow> error + RunnerTaskResponse" where
  "upload_ok res = Inr (res\<lparr>Response_Files := map ((@) ''results/'') (Response_Files res)\<rparr>)"

definition upload_failing :: "RunnerTaskResponse \<Rightarrow> error + RunnerTaskResponse" where
  "upload_failing res = Inl ''upload failed''"

definition files_ok :: FileHandler where
  "files_ok = \<lparr>downloadSession = download_ok, uploadWorkerResponse = upload_ok\<rparr>"

definition files_failing :: FileHandler where
  "files_failing = \<lparr>downloadSession = download_failing, uploadWorkerResponse = upload_failing\<rparr>"

definition new_files_ok :: "string \<Rightarrow> ClientOptions \<Rightarrow> FileHandler" where
  "new_files_ok runnerID clientOptions = files_ok"

definition options_example :: RunnerOptions where
  "options_example = \<lparr>Runner_ID = ''runner-1'', ApiHost = ''http://api'', ApiToken = ''secret''\<rparr>"

definition task_example :: "Model \<Rightarrow> Session \<Rightarrow> error + RunnerTask" where
  "task_example m session =
     Inr \<lparr>Task_SessionID = [], Task_Prompt = ''prompt'', Task_LoraDir = Session_LoraDir session,
          Task_DatasetDir = []\<rparr>"

definition stderr_example :: string where
  "stderr_example = ''RuntimeError: CUDA out of memory''"

text \<open>An instance with empty slots, and the same instance running \<open>session_A\<close>.\<close>

definition instance_idle :: "(unit, unit) ModelInstance" where
  "instance_idle =
     \<lparr>instance_id = ''m1'',
      model = Mistral7bInstruct01,
      instance_filter =
        \<lparr>Filter_Mode = SessionModeInference, Filter_Type = ''text'',
         Filter_ModelName = Model_Axolotl_Mistral7b, Filter_LoraDir = ''none'',
         Filter_Memory = 0, Filter_Reject = [], Filter_Older = 0\<rparr>,
      finishChan = [],
      runnerOptions = options_example,
      httpClientOptions = \<lparr>Host = ''http://api'', Token = ''secret''\<rparr>,
      nextTaskURL = ''http://runner/task/m1'',
      initialSessionURL = ''http://runner/initial_session/m1'',
      responseHandler = handler_ok,
      ctx = (),
      currentCommand = None,
      initialSession = Some session_A,
      currentSession = None,
      nextSession = None,
      queuedSession = None,
      lastActivityTimestamp = 0,
      fileHandler = files_ok\<rparr>"

definition instance_running :: "(unit, unit) ModelInstance" where
  "instance_running = instance_idle\<lparr>currentSession := Some session_A\<rparr>"

section \<open>The lowest memory requirement\<close>

lemma lower_cases: "lower a v = a \<or> (lower a v = v \<and> 0 < v)"
  by (simp add: lower_def)

lemma lower_keeps_pos: "0 < a \<Longrightarrow> 0 < lower a v \<and> lower a v \<le> a"
  by (auto simp: lower_def)

lemma lower_bounds_new: "0 < v \<Longrightarrow> 0 < lower a v \<and> lower a v \<le> v"
  by (auto simp: lower_def word_neq_0_conv)

lemma body_cases:
  "lowest_body mem a e = a \<or>
   (0 < lowest_body mem a e \<and>
    (\<exists>mode\<in>session_modes. lowest_body mem a e = mem (snd e) mode))"
  using lower_cases [of a "mem (snd e) SessionModeFinetune"]
        lower_cases [of "lower a (mem (snd e) SessionModeFinetune)" "mem (snd e) SessionModeInference"]
  by (auto simp: lowest_body_def session_modes_def Let_def)

lemma body_keeps_pos: "0 < a \<Longrightarrow> 0 < lowest_body mem a e \<and> lowest_body mem a e \<le> a"
  using lower_keeps_pos [of a "mem (snd e) SessionModeFinetune"]
        lower_keeps_pos [of "lower a (mem (snd e) SessionModeFinetune)" "mem (snd e) SessionModeInference"]
  by (auto simp: lowest_body_def Let_def)

lemma body_bounds_new:
  assumes "mode \<in> session_modes" and "0 < mem (snd e) mode"
  shows "0 < lowest_body mem a e \<and> lowest_body mem a e \<le> mem (snd e) mode"
proof (cases "mode = SessionModeFinetune")
  case True
  then have "0 < lower a (mem (snd e) SessionModeFinetune) \<and>
             lower a (mem (snd e) SessionModeFinetune) \<le> mem (snd e) mode"
    using assms(2) lower_bounds_new by simp
  then show ?thesis
    using lower_keeps_pos [of "lower a (mem (snd e) SessionModeFinetune)"
        "mem (snd e) SessionModeInference"]
    by (auto simp: lowest_body_def Let_def)
next
  case False
  then have "mode = SessionModeInference"
    using assms(1) by (simp add: session_modes_def)
  then show ?thesis
    using assms(2) lower_bounds_new by (simp add: lowest_body_def Let_def)
qed

lemma loop_keeps_pos:
  "0 < a \<Longrightarrow> 0 < foldl (lowest_body mem) a es \<and> foldl (lowest_body mem) a es \<le> a"
proof (induction es arbitrary: a)
  case Nil
  then show ?case by simp
next
  case (Cons e es)
  from Cons.prems have b: "0 < lowest_body mem a e \<and> lowest_body mem a e \<le> a"
    by (rule body_keeps_pos)
  with Cons.IH [of "lowest_body mem a e"] show ?case by auto
qed

lemma loop_bounds:
  assumes "e \<in> set es" and "mode \<in> session_modes" and "0 < mem (snd e) mode"
  shows "0 < foldl (lowest_body mem) a es \<and> foldl (lowest_body mem) a es \<le> mem (snd e) mode"
  using assms(1)
proof (induction es arbitrary: a)
  case Nil
  then show ?case by simp
next
  case (Cons x xs)
  show ?case
  proof (cases "e = x")
    case True
    have "0 < lowest_body mem a x \<and> lowest_body mem a x \<le> mem (snd e) mode"
      using body_bounds_new [OF assms(2), of mem e a] assms(3) True by simp
    then show ?thesis
      using loop_keeps_pos [of "lowest_body mem a x" mem xs] by auto
  next
    case False
    with Cons.prems have "e \<in> set xs" by simp
    then show ?thesis using Cons.IH by simp
  qed
qed

lemma loop_cases:
  "foldl (lowest_body mem) a es = a \<or>
   (0 < foldl (lowest_body mem) a es \<and>
    (\<exists>e\<in>set es. \<exists>mode\<in>session_modes. foldl (lowest_body mem) a es = mem (snd e) mode))"
proof (induction es arbitrary: a)
  case Nil
  then show ?case by simp
next
  case (Cons x xs)
  from Cons.IH [of "lowest_body mem a x"] body_cases [of mem a x]
  show ?case by (simp del: foldl_Cons add: foldl_Cons [of "lowest_body mem" a x xs]) metis
qed

lemma snd_GetModels:
  "GetModels = Inr models \<Longrightarrow> snd ` set models = known_models"
  by (auto simp: GetModels_def known_models_def)

text \<open>
  Claim C8. \<open>GetLowestMemoryRequirement\<close> always returns a value and no error. Whatever the
  order in which the map of known models is visited, the value is at most every strictly
  positive requirement that a known model reports for the finetune or the inference mode;
  it is 0 exactly when no known model reports a positive requirement, and otherwise it is
  one of the reported requirements.
\<close>

theorem GetLowestMemoryRequirement_min:
  assumes visit: "\<forall>xs. mset (order xs) = mset xs"
  shows "\<exists>low. GetLowestMemoryRequirement mem order = Inr low \<and>
           (\<forall>m\<in>known_models. \<forall>mode\<in>session_modes. 0 < mem m mode \<longrightarrow> low \<le> mem m mode) \<and>
           ((low = 0) = (\<forall>m\<in>known_models. \<forall>mode\<in>session_modes. mem m mode = 0)) \<and>
           (low \<noteq> 0 \<longrightarrow> (\<exists>m\<in>known_models. \<exists>mode\<in>session_modes. low = mem m mode))"
proof -
  obtain models where gm: "GetModels = Inr models"
    by (simp add: GetModels_def)
  define es where "es = order models"
  define low where "low = foldl (lowest_body mem) 0 es"
  have res: "GetLowestMemoryRequirement mem order = Inr low"
    by (simp add: GetLowestMemoryRequirement_def gm low_def es_def)
  have "set es = set models"
    unfolding es_def using visit mset_eq_setD by blast
  then have known: "snd ` set es = known_models"
    using snd_GetModels [OF gm] by simp
  have bound: "low \<le> mem m mode \<and> 0 < low"
    if "m \<in> known_models" "mode \<in> session_modes" "0 < mem m mode" for m mode
  proof -
    from that(1) known have "m \<in> snd ` set es" by simp
    then obtain e where "e \<in> set es" "snd e = m" by (auto simp: image_iff)
    then show ?thesis
      using loop_bounds [of e es mode mem 0] that(2,3) by (auto simp: low_def)
  qed
  have cases: "low = 0 \<or> (0 < low \<and> (\<exists>m\<in>known_models. \<exists>mode\<in>session_modes. low = mem m mode))"
    using loop_cases [of mem 0 es] known unfolding low_def by force
  have zero: "(low = 0) = (\<forall>m\<in>known_models. \<forall>mode\<in>session_modes. mem m mode = 0)"
  proof
    assume z: "low = 0"
    show "\<forall>m\<in>known_models. \<forall>mode\<in>session_modes. mem m mode = 0"
    proof (intro ballI)
      fix m mode
      assume "m \<in> known_models" "mode \<in> session_modes"
      then show "mem m mode = 0"
        using bound [of m mode] z word_neq_0_conv [of "mem m mode"]
        by (cases "0 < mem m mode") auto
    qed
  next
    assume "\<forall>m\<in>known_models. \<forall>mode\<in>session_modes. mem m mode = 0"
    then show "low = 0" using cases by auto
  qed
  from res bound cases zero show ?thesis by blast
qed

theorem GetLowestMemoryRequirement_min_witness:
  "(\<forall>xs::(ModelName \<times> Model) list. mset (rev xs) = mset xs) \<and>
   GetLowestMemoryRequirement mem_example rev = Inr 5"
proof -
  have visit: "\<forall>xs::(ModelName \<times> Model) list. mset (rev xs) = mset xs"
    by simp
  from GetLowestMemoryRequirement_min [OF visit, of mem_example]
  obtain low where res: "GetLowestMemoryRequirement mem_example rev = Inr low"
    and le: "\<forall>m\<in>known_models. \<forall>mode\<in>session_modes.
               0 < mem_example m mode \<longrightarrow> low \<le> mem_example m mode"
    and nz: "low \<noteq> 0 \<longrightarrow> (\<exists>m\<in>known_models. \<exists>mode\<in>session_modes. low = mem_example m mode)"
    and z: "(low = 0) = (\<forall>m\<in>known_models. \<forall>mode\<in>session_modes. mem_example m mode = 0)"
    by blast
  from z have "low \<noteq> 0"
    by (auto simp: known_models_def session_modes_def mem_example_def)
  with nz have "low = 5 \<or> low = 7"
    by (auto simp: known_models_def session_modes_def mem_example_def split: if_splits)
  moreover from le have "low \<le> 5"
    by (simp add: known_models_def session_modes_def mem_example_def)
  ultimately have "low = 5" by auto
  with res visit show ?thesis by simp
qed

section \<open>Creating an instance\<close>

text \<open>
  Claim C7. \<open>NewModelInstance\<close> fails exactly when \<open>GetModel\<close> does not know the model
  name of the initial session. Otherwise the filter of the new instance has the model name,
  the mode and the type of the initial session; its \<open>LoraDir\<close> is \<open>LORA_DIR_NONE\<close> when
  the session's is empty and the session's own otherwise. So the filter never holds the empty
  "don't care" value, provided the sentinel itself is not empty.
\<close>

theorem NewModelInstance_filter:
  "case (NewModelInstance LORA_DIR_NONE NewFileHandler uuid c session url1 url2 handler opts
          :: error + ('ctx, 'cmd) ModelInstance) of
     Inl err \<Rightarrow> GetModel (Session_ModelName session) = Inl err
   | Inr inst \<Rightarrow>
       GetModel (Session_ModelName session) = Inr (model inst) \<and>
       Filter_ModelName (instance_filter inst) = Session_ModelName session \<and>
       Filter_Mode (instance_filter inst) = Session_Mode session \<and>
       Filter_Type (instance_filter inst) = Session_Type session \<and>
       (Session_LoraDir session = [] \<longrightarrow> Filter_LoraDir (instance_filter inst) = LORA_DIR_NONE) \<and>
       (Session_LoraDir session \<noteq> [] \<longrightarrow>
          Filter_LoraDir (instance_filter inst) = Session_LoraDir session) \<and>
       (LORA_DIR_NONE \<noteq> [] \<longrightarrow> Filter_LoraDir (instance_filter inst) \<noteq> [])"
  by (cases "GetModel (Session_ModelName session)") (simp_all add: NewModelInstance_def Let_def)

theorem NewModelInstance_filter_witness:
  "Session_LoraDir session_A = [] \<and> Session_LoraDir session_B \<noteq> [] \<and> ''none'' \<noteq> [] \<and>
   (\<exists>inst::(unit, unit) ModelInstance.
      NewModelInstance ''none'' new_files_ok ''m1'' () session_A ''t'' ''i'' handler_ok options_example
        = Inr inst \<and>
      Filter_LoraDir (instance_filter inst) = ''none'') \<and>
   (\<exists>inst::(unit, unit) ModelInstance.
      NewModelInstance ''none'' new_files_ok ''m2'' () session_B ''t'' ''i'' handler_ok options_example
        = Inr inst \<and>
      Filter_LoraDir (instance_filter inst) = ''loras/s2'')"
proof -
  have a: "\<exists>inst::(unit, unit) ModelInstance.
      NewModelInstance ''none'' new_files_ok ''m1'' () session_A ''t'' ''i'' handler_ok options_example
        = Inr inst"
    by (simp add: NewModelInstance_def session_A_def Let_def)
  have b: "\<exists>inst::(unit, unit) ModelInstance.
      NewModelInstance ''none'' new_files_ok ''m2'' () session_B ''t'' ''i'' handler_ok options_example
        = Inr inst"
    by (simp add: NewModelInstance_def session_B_def Let_def)
  have la: "Session_LoraDir session_A = []" and lb: "Session_LoraDir session_B = ''loras/s2''"
    by (simp_all add: session_A_def session_B_def)
  from a la
    NewModelInstance_filter [where ?'cmd = unit and ?'ctx = unit and LORA_DIR_NONE = "''none''"
      and NewFileHandler = new_files_ok and uuid = "''m1''" and c = "()" and session = session_A
      and ?url1.0 = "''t''" and ?url2.0 = "''i''" and handler = handler_ok and opts = options_example]
  have "\<exists>inst::(unit, unit) ModelInstance.
      NewModelInstance ''none'' new_files_ok ''m1'' () session_A ''t'' ''i'' handler_ok options_example
        = Inr inst \<and> Filter_LoraDir (instance_filter inst) = ''none''"
    by auto
  moreover from b lb
    NewModelInstance_filter [where ?'cmd = unit and ?'ctx = unit and LORA_DIR_NONE = "''none''"
      and NewFileHandler = new_files_ok and uuid = "''m2''" and c = "()" and session = session_B
      and ?url1.0 = "''t''" and ?url2.0 = "''i''" and handler = handler_ok and opts = options_example]
  have "\<exists>inst::(unit, unit) ModelInstance.
      NewModelInstance ''none'' new_files_ok ''m2'' () session_B ''t'' ''i'' handler_ok options_example
        = Inr inst \<and> Filter_LoraDir (instance_filter inst) = ''loras/s2''"
    by auto
  ultimately show ?thesis using la lb by simp
qed

section \<open>Routing of task responses\<close>

lemma responses_emit [simp]:
  "responses (taskResponseHandler_emit inst res) = [res]"
  by (simp add: taskResponseHandler_emit_def split: option.split)

lemma uploads_emit [simp]:
  "Uploaded up \<notin> set (taskResponseHandler_emit inst res)"
  by (simp add: taskResponseHandler_emit_def split: option.split)

lemma responses_errorSession [simp]:
  "responses (errorSession inst session err) =
     [\<lparr>Response_Type = WorkerTaskResponseTypeResult,
       Response_SessionID = Session_ID session,
       Response_InteractionID = [], Response_Owner = [], Response_Message = [],
       Response_Progress = 0, Response_Status = [], Response_Files = [],
       Response_LoraDir = [], Response_Error = err, Response_Done = False\<rparr>]"
  by (simp add: errorSession_def Let_def split: option.split)

lemma responses_append [simp]: "responses (xs @ ys) = responses xs @ responses ys"
  by (induction xs rule: responses.induct) simp_all

text \<open>
  Claim C2. A response that arrives while there is no current session, or whose session ID
  is not the one of the current session, is dropped: the only event is one log line at error
  level, the response handler is not called, and the instance is unchanged. Otherwise the
  \<open>Owner\<close> of the response is set to the owner of the current session first; the tagged
  response carries the ID and the owner of the current session. A tagged response that is
  not of type \<open>result\<close> is forwarded: the response handler is called exactly once, with
  the tagged response, and nothing is uploaded. A tagged response of type \<open>result\<close> goes to
  the upload first, and the handler is called exactly once with what the upload returns (not
  at all when the upload fails); that value carries the ID and the owner of the current
  session whenever the upload returned these two fields as it got them.
\<close>

theorem taskResponseHandler_routing:
  "case taskResponseHandler now inst taskResponse of (evs, inst') \<Rightarrow>
     (currentSession inst = None \<longrightarrow>
        evs = [Log ErrorLevel ''no current session'' []] \<and> responses evs = [] \<and> inst' = inst) \<and>
     (\<forall>cur. currentSession inst = Some cur \<and>
             Session_ID cur \<noteq> Response_SessionID taskResponse \<longrightarrow>
        evs = [Log ErrorLevel ''current session ID mis-match: current=%s vs event=%s''
                 [Str (Session_ID cur), Str (Response_SessionID taskResponse)]] \<and>
        responses evs = [] \<and> inst' = inst) \<and>
     (\<forall>cur. currentSession inst = Some cur \<and>
             Session_ID cur = Response_SessionID taskResponse \<longrightarrow>
        (let tagged = taskResponse\<lparr>Response_Owner := Session_Owner cur\<rparr> in
           Response_SessionID tagged = Session_ID cur \<and>
           Response_Owner tagged = Session_Owner cur \<and>
           (Response_Type taskResponse \<noteq> WorkerTaskResponseTypeResult \<longrightarrow>
              responses evs = [tagged] \<and> (\<forall>up. Uploaded up \<notin> set evs)) \<and>
           (Response_Type taskResponse = WorkerTaskResponseTypeResult \<longrightarrow>
              (\<exists>rest. evs = Uploaded tagged # rest \<and> (\<forall>up. Uploaded up \<notin> set rest)) \<and>
              responses evs =
                (case uploadWorkerResponse (fileHandler inst) tagged of
                   Inl err \<Rightarrow> []
                 | Inr uploaded \<Rightarrow> [uploaded]) \<and>
              (\<forall>uploaded.
                 uploadWorkerResponse (fileHandler inst) tagged = Inr uploaded \<and>
                 Response_SessionID uploaded = Response_SessionID tagged \<and>
                 Response_Owner uploaded = Response_Owner tagged \<longrightarrow>
                 responses evs = [uploaded] \<and>
                 Response_SessionID uploaded = Session_ID cur \<and>
                 Response_Owner uploaded = Session_Owner cur))))"
proof (cases "currentSession inst")
  case None
  then show ?thesis by (simp add: taskResponseHandler_def)
next
  case (Some cur)
  show ?thesis
  proof (cases "Session_ID cur = Response_SessionID taskResponse")
    case False
    with Some show ?thesis by (simp add: taskResponseHandler_def)
  next
    case True
    show ?thesis
    proof (cases "Response_Type taskResponse = WorkerTaskResponseTypeResult")
      case False
      with Some True show ?thesis
        by (simp add: taskResponseHandler_def Let_def)
    next
      case result: True
      show ?thesis
      proof (cases "uploadWorkerResponse (fileHandler inst)
                      (taskResponse\<lparr>Response_Owner := Session_Owner cur\<rparr>)")
        case (Inl err)
        with Some True result show ?thesis
          by (simp add: taskResponseHandler_def Let_def)
      next
        case (Inr uploaded)
        with Some True result show ?thesis
          by (simp add: taskResponseHandler_def Let_def)
      qed
    qed
  qed
qed

lemmas example_defs =
  instance_running_def instance_idle_def session_A_def session_B_def response_A_def
  handler_ok_def files_ok_def files_failing_def download_ok_def download_failing_def
  upload_ok_def upload_failing_def task_example_def
  WorkerTaskResponseTypeResult_def WorkerTaskResponseTypeStream_def

lemmas handler_defs =
  taskResponseHandler_def taskResponseHandler_emit_def errorSession_def Let_def

theorem taskResponseHandler_routing_witness:
  "currentSession instance_running = Some session_A \<and>
   Session_ID session_A = Response_SessionID (response_A WorkerTaskResponseTypeStream) \<and>
   Response_Type (response_A WorkerTaskResponseTypeStream) \<noteq> WorkerTaskResponseTypeResult \<and>
   responses (fst (taskResponseHandler 5 instance_running
                     (response_A WorkerTaskResponseTypeStream))) =
     [(response_A WorkerTaskResponseTypeStream)\<lparr>Response_Owner := ''alice''\<rparr>] \<and>
   uploadWorkerResponse (fileHandler instance_running) = upload_ok \<and>
   map Response_SessionID
     (responses (fst (taskResponseHandler 5 instance_running
                        (response_A WorkerTaskResponseTypeResult)))) = [''s1''] \<and>
   map Response_Owner
     (responses (fst (taskResponseHandler 5 instance_running
                        (response_A WorkerTaskResponseTypeResult)))) = [''alice''] \<and>
   currentSession instance_idle = None \<and>
   fst (taskResponseHandler 5 instance_idle (response_A WorkerTaskResponseTypeStream)) =
     [Log ErrorLevel ''no current session'' []] \<and>
   currentSession (instance_idle\<lparr>currentSession := Some session_B\<rparr>) = Some session_B \<and>
   Session_ID session_B \<noteq> Response_SessionID (response_A WorkerTaskResponseTypeStream) \<and>
   responses (fst (taskResponseHandler 5 (instance_idle\<lparr>currentSession := Some session_B\<rparr>)
                     (response_A WorkerTaskResponseTypeStream))) = []"
proof -
  have cur: "currentSession instance_running = Some session_A"
    by (simp add: instance_running_def)
  have same: "Session_ID session_A = Response_SessionID (response_A ty)" for ty
    by (simp add: session_A_def response_A_def)
  have owner: "Session_Owner session_A = ''alice''" and sid: "Session_ID session_A = ''s1''"
    by (simp_all add: session_A_def)
  have stream: "Response_Type (response_A WorkerTaskResponseTypeStream)
                  \<noteq> WorkerTaskResponseTypeResult"
    by (simp add: response_A_def WorkerTaskResponseTypeStream_def
        WorkerTaskResponseTypeResult_def)
  have result: "Response_Type (response_A WorkerTaskResponseTypeResult)
                  = WorkerTaskResponseTypeResult"
    by (simp add: response_A_def)
  have up: "uploadWorkerResponse (fileHandler instance_running) = upload_ok"
    by (simp add: instance_running_def instance_idle_def files_ok_def)
  have idle: "currentSession instance_idle = None"
    by (simp add: instance_idle_def)
  have curB: "currentSession (instance_idle\<lparr>currentSession := Some session_B\<rparr>) = Some session_B"
    by simp
  have other: "Session_ID session_B \<noteq> Response_SessionID (response_A WorkerTaskResponseTypeStream)"
    by (simp add: session_B_def response_A_def)
  from taskResponseHandler_routing [where now = 5 and inst = instance_running
      and taskResponse = "response_A WorkerTaskResponseTypeStream"]
    cur same stream owner
  have a: "responses (fst (taskResponseHandler 5 instance_running
                     (response_A WorkerTaskResponseTypeStream))) =
     [(response_A WorkerTaskResponseTypeStream)\<lparr>Response_Owner := ''alice''\<rparr>]"
    by (auto simp: case_prod_unfold Let_def)
  have ret: "uploadWorkerResponse (fileHandler instance_running)
               ((response_A WorkerTaskResponseTypeResult)\<lparr>Response_Owner := Session_Owner session_A\<rparr>)
             = Inr ((response_A WorkerTaskResponseTypeResult)
                      \<lparr>Response_Owner := Session_Owner session_A,
                       Response_Files := [''results/out.png'']\<rparr>)"
    by (simp add: up upload_ok_def response_A_def)
  from taskResponseHandler_routing [where now = 5 and inst = instance_running
      and taskResponse = "response_A WorkerTaskResponseTypeResult"]
    cur same result ret
  have "responses (fst (taskResponseHandler 5 instance_running
                     (response_A WorkerTaskResponseTypeResult))) =
          [(response_A WorkerTaskResponseTypeResult)
             \<lparr>Response_Owner := Session_Owner session_A,
              Response_Files := [''results/out.png'']\<rparr>]"
    by (auto simp: case_prod_unfold Let_def)
  then have b: "map Response_SessionID
     (responses (fst (taskResponseHandler 5 instance_running
                        (response_A WorkerTaskResponseTypeResult)))) = [''s1''] \<and>
   map Response_Owner
     (responses (fst (taskResponseHandler 5 instance_running
                        (response_A WorkerTaskResponseTypeResult)))) = [''alice'']"
    by (simp add: owner response_A_def)
  from taskResponseHandler_routing [where now = 5 and inst = instance_idle
      and taskResponse = "response_A WorkerTaskResponseTypeStream"]
    idle
  have c: "fst (taskResponseHandler 5 instance_idle (response_A WorkerTaskResponseTypeStream)) =
     [Log ErrorLevel ''no current session'' []]"
    by (simp add: case_prod_unfold)
  from taskResponseHandler_routing [where now = 5
      and inst = "instance_idle\<lparr>currentSession := Some session_B\<rparr>"
      and taskResponse = "response_A WorkerTaskResponseTypeStream"]
    curB other
  have d: "responses (fst (taskResponseHandler 5 (instance_idle\<lparr>currentSession := Some session_B\<rparr>)
                     (response_A WorkerTaskResponseTypeStream))) = []"
    by (simp add: case_prod_unfold)
  from cur same stream a up b idle c curB other d show ?thesis by simp
qed

text \<open>
  Claim C4. For a response of type \<open>result\<close> that matches the current session, the first
  event is the upload of the tagged response; no upload happens later; a call of the response
  handler, if there is one, comes after the upload and hands over what the upload returned;
  and the current session is empty afterwards.
\<close>

theorem taskResponseHandler_result_uploads_first:
  assumes "currentSession inst = Some cur"
    and "Session_ID cur = Response_SessionID taskResponse"
    and "Response_Type taskResponse = WorkerTaskResponseTypeResult"
  shows "case taskResponseHandler now inst taskResponse of (evs, inst') \<Rightarrow>
           currentSession inst' = None \<and>
           (\<exists>rest. evs = Uploaded (taskResponse\<lparr>Response_Owner := Session_Owner cur\<rparr>) # rest \<and>
                   (\<forall>up. Uploaded up \<notin> set rest) \<and>
                   (case uploadWorkerResponse (fileHandler inst)
                           (taskResponse\<lparr>Response_Owner := Session_Owner cur\<rparr>) of
                      Inl err \<Rightarrow> responses rest = []
                    | Inr uploaded \<Rightarrow> responses rest = [uploaded]))"
  using assms
  by (cases "uploadWorkerResponse (fileHandler inst)
               (taskResponse\<lparr>Response_Owner := Session_Owner cur\<rparr>)")
     (simp_all add: taskResponseHandler_def Let_def)

theorem taskResponseHandler_result_uploads_first_witness:
  "currentSession instance_running = Some session_A \<and>
   Session_ID session_A = Response_SessionID (response_A WorkerTaskResponseTypeResult) \<and>
   Response_Type (response_A WorkerTaskResponseTypeResult) = WorkerTaskResponseTypeResult \<and>
   currentSession (snd (taskResponseHandler 5 instance_running
                          (response_A WorkerTaskResponseTypeResult))) = None \<and>
   (\<exists>rest. fst (taskResponseHandler 5 instance_running (response_A WorkerTaskResponseTypeResult))
            = Uploaded ((response_A WorkerTaskResponseTypeResult)\<lparr>Response_Owner := ''alice''\<rparr>) # rest \<and>
           map Response_Files (responses rest) = [[''results/out.png'']])"
proof -
  have cur: "currentSession instance_running = Some session_A"
    by (simp add: instance_running_def)
  have same: "Session_ID session_A = Response_SessionID (response_A WorkerTaskResponseTypeResult)"
    by (simp add: session_A_def response_A_def)
  have ty: "Response_Type (response_A WorkerTaskResponseTypeResult) = WorkerTaskResponseTypeResult"
    by (simp add: response_A_def)
  have up: "uploadWorkerResponse (fileHandler instance_running)
              ((response_A WorkerTaskResponseTypeResult)\<lparr>Response_Owner := Session_Owner session_A\<rparr>)
            = Inr ((response_A WorkerTaskResponseTypeResult)
                     \<lparr>Response_Owner := ''alice'', Response_Files := [''results/out.png'']\<rparr>)"
    by (simp add: example_defs)
  have owner: "Session_Owner session_A = ''alice''"
    by (simp add: session_A_def)
  from taskResponseHandler_result_uploads_first [OF cur same ty, where now = 5] up owner
  have "currentSession (snd (taskResponseHandler 5 instance_running
                          (response_A WorkerTaskResponseTypeResult))) = None \<and>
   (\<exists>rest. fst (taskResponseHandler 5 instance_running (response_A WorkerTaskResponseTypeResult))
            = Uploaded ((response_A WorkerTaskResponseTypeResult)\<lparr>Response_Owner := ''alice''\<rparr>) # rest \<and>
           map Response_Files (responses rest) = [[''results/out.png'']])"
    by (auto simp: case_prod_unfold)
  with cur same ty show ?thesis by blast
qed

text \<open>
  Claim C9. When the upload fails for a response of type \<open>result\<close> that matches the current
  session, the events are the upload and one log line at error level: the response handler is
  not called, so neither the result nor an error response is forwarded. The current session
  is empty afterwards.
\<close>

theorem taskResponseHandler_upload_failure:
  assumes "currentSession inst = Some cur"
    and "Session_ID cur = Response_SessionID taskResponse"
    and "Response_Type taskResponse = WorkerTaskResponseTypeResult"
    and "uploadWorkerResponse (fileHandler inst)
           (taskResponse\<lparr>Response_Owner := Session_Owner cur\<rparr>) = Inl err"
  shows "case taskResponseHandler now inst taskResponse of (evs, inst') \<Rightarrow>
           currentSession inst' = None \<and>
           responses evs = [] \<and>
           evs = [Uploaded (taskResponse\<lparr>Response_Owner := Session_Owner cur\<rparr>),
                  Log ErrorLevel ''error uploading task result files: %s'' [Str err]]"
  using assms by (simp add: taskResponseHandler_def Let_def)

theorem taskResponseHandler_upload_failure_witness:
  "currentSession (instance_running\<lparr>fileHandler := files_failing\<rparr>) = Some session_A \<and>
   Session_ID session_A = Response_SessionID (response_A WorkerTaskResponseTypeResult) \<and>
   Response_Type (response_A WorkerTaskResponseTypeResult) = WorkerTaskResponseTypeResult \<and>
   uploadWorkerResponse (fileHandler (instance_running\<lparr>fileHandler := files_failing\<rparr>))
     ((response_A WorkerTaskResponseTypeResult)\<lparr>Response_Owner := Session_Owner session_A\<rparr>)
     = Inl ''upload failed'' \<and>
   currentSession (snd (taskResponseHandler 5 (instance_running\<lparr>fileHandler := files_failing\<rparr>)
                          (response_A WorkerTaskResponseTypeResult))) = None \<and>
   responses (fst (taskResponseHandler 5 (instance_running\<lparr>fileHandler := files_failing\<rparr>)
                     (response_A WorkerTaskResponseTypeResult))) = []"
proof -
  have cur: "currentSession (instance_running\<lparr>fileHandler := files_failing\<rparr>) = Some session_A"
    by (simp add: instance_running_def)
  have same: "Session_ID session_A = Response_SessionID (response_A WorkerTaskResponseTypeResult)"
    by (simp add: session_A_def response_A_def)
  have ty: "Response_Type (response_A WorkerTaskResponseTypeResult) = WorkerTaskResponseTypeResult"
    by (simp add: response_A_def)
  have up: "uploadWorkerResponse (fileHandler (instance_running\<lparr>fileHandler := files_failing\<rparr>))
     ((response_A WorkerTaskResponseTypeResult)\<lparr>Response_Owner := Session_Owner session_A\<rparr>)
     = Inl ''upload failed''"
    by (simp add: files_failing_def upload_failing_def)
  from taskResponseHandler_upload_failure [OF cur same ty up, where now = 5] cur same ty up
  show ?thesis by (simp add: case_prod_unfold)
qed

text \<open>
  Claim C10. \<open>assignSessionTask\<close> changes the instance in two fields only: the activity
  timestamp becomes the current time and the current session becomes the assigned one,
  whether or not the task can be built. \<open>taskResponseHandler\<close>, for a response that matches
  the current session, sets the activity timestamp to the current time, empties the current
  session when the response is of type \<open>result\<close>, and changes no other field.
\<close>

theorem activity_timestamp_frame:
  "fst (assignSessionTask GetTask now inst session) =
     inst\<lparr>lastActivityTimestamp := now, currentSession := Some session\<rparr> \<and>
   (\<forall>cur. currentSession inst = Some cur \<and>
           Session_ID cur = Response_SessionID taskResponse \<longrightarrow>
      snd (taskResponseHandler now inst taskResponse) =
        inst\<lparr>lastActivityTimestamp := now,
             currentSession :=
               (if Response_Type taskResponse = WorkerTaskResponseTypeResult
                then None else Some cur)\<rparr> \<and>
      lastActivityTimestamp (snd (taskResponseHandler now inst taskResponse)) = now)"
proof -
  have "fst (assignSessionTask GetTask now inst session) =
     inst\<lparr>lastActivityTimestamp := now, currentSession := Some session\<rparr>"
    by (simp add: assignSessionTask_def Let_def split: sum.split)
  moreover have "snd (taskResponseHandler now inst taskResponse) =
        inst\<lparr>lastActivityTimestamp := now,
             currentSession :=
               (if Response_Type taskResponse = WorkerTaskResponseTypeResult
                then None else Some cur)\<rparr>"
    if "currentSession inst = Some cur" "Session_ID cur = Response_SessionID taskResponse" for cur
    using that by (simp add: taskResponseHandler_def Let_def split: sum.split)
  ultimately show ?thesis by simp
qed

theorem activity_timestamp_frame_witness:
  "currentSession instance_running = Some session_A \<and>
   Session_ID session_A = Response_SessionID (response_A WorkerTaskResponseTypeStream) \<and>
   fst (assignSessionTask task_example 7 instance_idle session_B) =
     instance_idle\<lparr>lastActivityTimestamp := 7, currentSession := Some session_B\<rparr> \<and>
   snd (taskResponseHandler 9 instance_running (response_A WorkerTaskResponseTypeStream)) =
     instance_running\<lparr>lastActivityTimestamp := 9\<rparr> \<and>
   snd (taskResponseHandler 9 instance_running (response_A WorkerTaskResponseTypeResult)) =
     instance_idle\<lparr>lastActivityTimestamp := 9\<rparr>"
proof -
  have cur: "currentSession instance_running = Some session_A"
    by (simp add: instance_running_def)
  have same: "Session_ID session_A = Response_SessionID (response_A ty)" for ty
    by (simp add: session_A_def response_A_def)
  have a: "fst (assignSessionTask task_example 7 instance_idle session_B) =
     instance_idle\<lparr>lastActivityTimestamp := 7, currentSession := Some session_B\<rparr>"
    using activity_timestamp_frame [where GetTask = task_example and now = 7 and inst = instance_idle
        and session = session_B] by simp
  have b: "snd (taskResponseHandler 9 instance_running (response_A WorkerTaskResponseTypeStream)) =
     instance_running\<lparr>lastActivityTimestamp := 9\<rparr>"
    using activity_timestamp_frame [where GetTask = task_example and now = 9 and inst = instance_running
        and session = session_B and taskResponse = "response_A WorkerTaskResponseTypeStream"] cur same
    by (simp add: example_defs)
  have c: "snd (taskResponseHandler 9 instance_running (response_A WorkerTaskResponseTypeResult)) =
     instance_idle\<lparr>lastActivityTimestamp := 9\<rparr>"
    using activity_timestamp_frame [where GetTask = task_example and now = 9 and inst = instance_running
        and session = session_B and taskResponse = "response_A WorkerTaskResponseTypeResult"] cur same
    by (simp add: example_defs)
  from cur same a b c show ?thesis by simp
qed

section \<open>Queueing a session\<close>



section \<open>Reporting the error of a session\<close>

text \<open>
  Claim C1, at an explicit input: the response that \<open>errorSession\<close> sends has its \<open>Done\<close>
  flag unset, and since the report leaves the current session in place, a later stream
  response with the ID of the errored session is still forwarded.
\<close>

theorem errorSession_counterexample:
  "map Response_Done (responses (errorSession instance_running session_A ''exit status 1''))
     = [False] \<and>
   snd (startProcess_wait (Some ''exit status 1'') 1 instance_running)
     = Some (instance_running\<lparr>finishChan := [True]\<rparr>) \<and>
   map Response_SessionID
     (responses (fst (taskResponseHandler 5 (instance_running\<lparr>finishChan := [True]\<rparr>)
                        (response_A WorkerTaskResponseTypeStream)))) = [''s1'']"
  by (simp add: startProcess_wait_def chan_send_def handler_defs example_defs)

text \<open>
  Claim C1, amended. \<open>errorSession\<close> calls the response handler exactly once, with a
  response of type \<open>result\<close> that carries the ID of the session and the text of the error
  (so a non-empty error for a non-empty text) and whose \<open>Done\<close> flag is unset. The two callers
  send nothing else to the handler: a failed download in \<open>queueSession\<close> and a failed wait
  with a current session in \<open>startProcess\<close> each produce exactly the responses of that one
  call. The report does not touch the slots: after the wait goroutine the current session is
  still the one it reported.
\<close>

theorem errorSession_single_result:
  "(\<exists>res. responses (errorSession inst session err) = [res] \<and>
          Response_Type res = WorkerTaskResponseTypeResult \<and>
          Response_SessionID res = Session_ID session \<and>
          Response_Error res = err \<and>
          \<not> Response_Done res) \<and>
   (downloadSession (fileHandler inst) session isInitialSession = Inl err \<longrightarrow>
      responses (fst (queueSession inst session isInitialSession)) =
        responses (errorSession inst session err)) \<and>
   (currentSession inst = Some session \<longrightarrow>
      responses (fst (startProcess_wait (Some err) exitCode inst)) =
        responses (errorSession inst session err) \<and>
      (\<forall>inst'. snd (startProcess_wait (Some err) exitCode inst) = Some inst' \<longrightarrow>
                currentSession inst' = Some session))"
  by (auto simp: queueSession_def queueSession_store_def queueSession_download_def
      startProcess_wait_def Let_def)

theorem errorSession_single_result_witness:
  "downloadSession (fileHandler (instance_running\<lparr>fileHandler := files_failing\<rparr>)) session_B True
     = Inl ''download failed'' \<and>
   currentSession instance_running = Some session_A \<and>
   map Response_SessionID
     (responses (fst (queueSession (instance_running\<lparr>fileHandler := files_failing\<rparr>)
                        session_B True))) = [''s2''] \<and>
   map Response_Error
     (responses (fst (startProcess_wait (Some ''exit status 1'') 1 instance_running)))
     = [''exit status 1'']"
proof -
  have bad: "downloadSession (fileHandler (instance_running\<lparr>fileHandler := files_failing\<rparr>))
               session_B True = Inl ''download failed''"
    by (simp add: example_defs)
  have cur: "currentSession instance_running = Some session_A"
    by (simp add: instance_running_def)
  from errorSession_single_result [where inst = "instance_running\<lparr>fileHandler := files_failing\<rparr>"
      and session = session_B and err = "''download failed''" and isInitialSession = True] bad
  have a: "map Response_SessionID
     (responses (fst (queueSession (instance_running\<lparr>fileHandler := files_failing\<rparr>)
                        session_B True))) = [Session_ID session_B]"
    by auto
  from errorSession_single_result [where inst = instance_running and session = session_A
      and err = "''exit status 1''" and exitCode = 1] cur
  have b: "map Response_Error
     (responses (fst (startProcess_wait (Some ''exit status 1'') 1 instance_running)))
     = [''exit status 1'']"
    by auto
  from a have "map Response_SessionID
     (responses (fst (queueSession (instance_running\<lparr>fileHandler := files_failing\<rparr>)
                        session_B True))) = [''s2'']"
    by (simp add: session_B_def)
  with bad cur b show ?thesis by simp
qed

section \<open>The end of the child process\<close>

lemma LimitedBuffer_Write_short:
  "length p \<le> cap \<Longrightarrow> LimitedBuffer_Write cap [] p = p"
  by (simp add: LimitedBuffer_Write_def)

lemma startProcess_wait_sends:
  "finishChan inst = [] \<Longrightarrow>
   snd (startProcess_wait waitErr exitCode inst) = Some (inst\<lparr>finishChan := [True]\<rparr>)"
  by (simp add: startProcess_wait_def chan_send_def Let_def)

lemma startProcess_child_ignores_stderr:
  "snd (startProcess_child stderrData waitErr exitCode inst) =
   snd (startProcess_child stderrData' waitErr exitCode inst)"
  by (simp add: startProcess_child_def Let_def case_prod_unfold)

text \<open>
  Claim C6, at an explicit input. The child writes an error message to its stderr and exits
  with status 1 while \<open>session_A\<close> is current. The buffer \<open>stderrBuf\<close> then holds the
  message, and the goroutine sends \<open>true\<close> on \<open>finishChan\<close>; but the one response sent for
  the session carries only the text of the wait error in its error field, nothing of the
  stderr of the child, and its \<open>Done\<close> flag is unset. On an idle instance whose
  child exits cleanly nothing is sent to the response handler, and \<open>true\<close> is sent on
  \<open>finishChan\<close> all the same.
\<close>

theorem startProcess_child_stderr_lost:
  "startProcess_child stderr_example (Some ''exit status 1'') 1 instance_running =
     (''RuntimeError: CUDA out of memory'',
      [Log ErrorLevel ''Command ended with an error: %v'' [Str ''exit status 1''],
       Responded
         \<lparr>Response_Type = ''result'', Response_SessionID = ''s1'',
          Response_InteractionID = [], Response_Owner = [], Response_Message = [],
          Response_Progress = 0, Response_Status = [], Response_Files = [],
          Response_LoraDir = [], Response_Error = ''exit status 1'', Response_Done = False\<rparr>,
       Log InfoLevel ''stop model instance, exit code=%d'' [Num 1]],
      Some (instance_running\<lparr>finishChan := [True]\<rparr>)) \<and>
   startProcess_child stderr_example None 0 instance_idle =
     (''RuntimeError: CUDA out of memory'',
      [Log InfoLevel ''stop model instance, exit code=%d'' [Num 0]],
      Some (instance_idle\<lparr>finishChan := [True]\<rparr>))"
proof -
  have "length stderr_example \<le> 1024 * 10"
    by (simp add: stderr_example_def)
  then have "LimitedBuffer_Write (1024 * 10) [] stderr_example = ''RuntimeError: CUDA out of memory''"
    by (simp add: LimitedBuffer_Write_short) (simp add: stderr_example_def)
  then show ?thesis
    by (simp add: startProcess_child_def startProcess_wait_def chan_send_def
        handler_defs example_defs)
qed

section \<open>The three session slots\<close>

lemma distinct_slots_None [simp]: "distinct_slots a None" "distinct_slots None b"
  by (cases a; simp) simp




end
